theory Spec2Isabelle
  imports Complex_Main "HOL-Library.Sublist"
begin

section \<open>Values handed to the plotting library\<close>

text \<open>
  The script \<^verbatim>\<open>langgraph_diagram.py\<close> is one function,
  \<^verbatim>\<open>create_langgraph_diagram\<close>, a straight line of calls into matplotlib with
  literal arguments. Numbers are modelled as rationals (the decimal literals as
  written), strings as the UTF-8 bytes of the source text, and keyword arguments
  as the list of \<open>(name, value)\<close> pairs in the order the call writes them.
\<close>

datatype pyval = Num rat | Str string | Dict "(string \<times> pyval) list"

type_synonym kwargs = "(string \<times> pyval) list"

type_synonym point = "rat \<times> rat"

text \<open>
  The three kinds of element the script creates: \<^verbatim>\<open>ax.text(x, y, s, **kw)\<close>,
  \<^verbatim>\<open>FancyBboxPatch(xy, width, height, **kw)\<close> and
  \<^verbatim>\<open>ConnectionPatch(xyA, xyB, coordsA, coordsB, **kw)\<close>.
\<close>

datatype artist =
    Text rat rat string kwargs
  | FancyBboxPatch point rat rat kwargs
  | ConnectionPatch point point string string kwargs

text \<open>
  A figure with the single axes that \<^verbatim>\<open>plt.subplots(1, 1, ...)\<close> gives it. The
  axes keep their elements in one list, in the order they were added.
\<close>

record figure =
  figsize :: point
  xlim :: point
  ylim :: point
  axison :: bool
  children :: "artist list"
  tight :: bool

definition new_figure :: "point \<Rightarrow> figure" where
  "new_figure sz =
     \<lparr>figsize = sz, xlim = (0, 1), ylim = (0, 1), axison = True, children = [], tight = False\<rparr>"

text \<open>What \<^verbatim>\<open>savefig\<close> stores: the format, the options of the call and the figure as it was.\<close>

record image =
  fmt :: string
  options :: kwargs
  picture :: figure

datatype exn = KeyError string | OSError string

datatype io_event = FileWritten string | OpenFailed string | Printed string

section \<open>The state the script runs in\<close>

text \<open>
  \<open>figures\<close> is the store of figure objects, \<open>open_figs\<close> pyplot's registry of open
  figures (number and object, the last one is the current figure), \<open>dirs\<close> the
  directories in which the process can create a file, \<open>files\<close> the file system's
  content, \<open>stdout\<close> the lines printed so far and \<open>io_log\<close> every file and console
  operation in the order it happened. \<open>argv\<close> and \<open>environ\<close> are the command line and
  the environment variables of the process.
\<close>

record world =
  figures :: "nat \<Rightarrow> figure"
  next_obj :: nat
  open_figs :: "(nat \<times> nat) list"
  dirs :: "string set"
  files :: "string \<rightharpoonup> image"
  stdout :: "string list"
  io_log :: "io_event list"
  argv :: "string list"
  environ :: "string \<rightharpoonup> string"

text \<open>
  A statement either completes (\<open>None\<close>) or raises (\<open>Some e\<close>); the state it leaves
  behind is kept in both cases. A block runs its statements in order and stops at
  the first one that raises.
\<close>

type_synonym stmt = "world \<Rightarrow> exn option \<times> world"

fun exec :: "stmt list \<Rightarrow> world \<Rightarrow> exn option \<times> world" where
  "exec [] w = (None, w)"
| "exec (s # ss) w = (case s w of (None, w') \<Rightarrow> exec ss w' | (Some e, w') \<Rightarrow> (Some e, w'))"

section \<open>The library calls the script makes\<close>

definition next_num :: "(nat \<times> nat) list \<Rightarrow> nat" where
  "next_num reg = fold max (map fst reg) 0 + 1"

text \<open>
  \<^verbatim>\<open>plt.subplots(1, 1, figsize=...)\<close>: a new figure object, registered under the next
  free number and made current; the result is its axes.
\<close>

definition plt_subplots :: "nat \<Rightarrow> nat \<Rightarrow> point \<Rightarrow> world \<Rightarrow> nat \<times> world" where
  "plt_subplots nrows ncols sz w =
     (next_obj w,
      w\<lparr>figures := (figures w)(next_obj w := new_figure sz),
        next_obj := Suc (next_obj w),
        open_figs := open_figs w @ [(next_num (open_figs w), next_obj w)]\<rparr>)"

definition update_fig :: "nat \<Rightarrow> (figure \<Rightarrow> figure) \<Rightarrow> world \<Rightarrow> world" where
  "update_fig i g w = w\<lparr>figures := (figures w)(i := g (figures w i))\<rparr>"

definition ax_set_xlim :: "nat \<Rightarrow> rat \<Rightarrow> rat \<Rightarrow> stmt" where
  "ax_set_xlim ax lo hi w = (None, update_fig ax (\<lambda>f. f\<lparr>xlim := (lo, hi)\<rparr>) w)"

definition ax_set_ylim :: "nat \<Rightarrow> rat \<Rightarrow> rat \<Rightarrow> stmt" where
  "ax_set_ylim ax lo hi w = (None, update_fig ax (\<lambda>f. f\<lparr>ylim := (lo, hi)\<rparr>) w)"

definition ax_axis :: "nat \<Rightarrow> string \<Rightarrow> stmt" where
  "ax_axis ax arg w =
     (None, if arg = ''off'' then update_fig ax (\<lambda>f. f\<lparr>axison := False\<rparr>) w
            else if arg = ''on'' then update_fig ax (\<lambda>f. f\<lparr>axison := True\<rparr>) w
            else w)"

text \<open>
  \<^verbatim>\<open>ax.text\<close> creates the text element and appends it to the axes' elements;
  \<^verbatim>\<open>ax.add_patch\<close> appends the patch it is given.
\<close>

definition add_artist :: "nat \<Rightarrow> artist \<Rightarrow> stmt" where
  "add_artist ax a w = (None, update_fig ax (\<lambda>f. f\<lparr>children := children f @ [a]\<rparr>) w)"

definition ax_text :: "nat \<Rightarrow> rat \<Rightarrow> rat \<Rightarrow> string \<Rightarrow> kwargs \<Rightarrow> stmt" where
  "ax_text ax x y s kw = add_artist ax (Text x y s kw)"

definition ax_add_patch :: "nat \<Rightarrow> artist \<Rightarrow> stmt" where
  "ax_add_patch ax p = add_artist ax p"

text \<open>
  \<^verbatim>\<open>plt.gcf()\<close>: the current figure; pyplot creates one (of its default size) when
  none is open.
\<close>

definition gcf :: "world \<Rightarrow> nat \<times> world" where
  "gcf w = (if open_figs w = [] then plt_subplots 1 1 (6.4, 4.8) w
            else (snd (last (open_figs w)), w))"

definition plt_tight_layout :: stmt where
  "plt_tight_layout w = (case gcf w of (i, w') \<Rightarrow> (None, update_fig i (\<lambda>f. f\<lparr>tight := True\<rparr>) w'))"

text \<open>
  The directory a path names a file in, and the format matplotlib takes from the
  file name's extension (\<^verbatim>\<open>png\<close> when there is none).
\<close>

definition parent_dir :: "string \<Rightarrow> string" where
  "parent_dir p = rev (dropWhile (\<lambda>c. c \<noteq> CHR ''/'') (rev p))"

definition base_name :: "string \<Rightarrow> string" where
  "base_name p = rev (takeWhile (\<lambda>c. c \<noteq> CHR ''/'') (rev p))"

definition file_format :: "string \<Rightarrow> string" where
  "file_format p =
     (if CHR ''.'' \<in> set (base_name p)
      then rev (takeWhile (\<lambda>c. c \<noteq> CHR ''.'') (rev (base_name p)))
      else ''png'')"

text \<open>
  \<^verbatim>\<open>plt.savefig(path, **kw)\<close> renders the current figure and opens the file for
  writing. Opening fails when the directory is missing or not writable: the call
  raises and the file system is as it was. Otherwise the file at \<open>path\<close> is created
  or replaced.
\<close>

definition plt_savefig :: "string \<Rightarrow> kwargs \<Rightarrow> stmt" where
  "plt_savefig path kw w =
     (case gcf w of (i, w') \<Rightarrow>
        if parent_dir path \<in> dirs w'
        then (None, w'\<lparr>files := (files w')(path \<mapsto>
                           \<lparr>fmt = file_format path, options = kw, picture = figures w' i\<rparr>),
                        io_log := io_log w' @ [FileWritten path]\<rparr>)
        else (Some (OSError path), w'\<lparr>io_log := io_log w' @ [OpenFailed path]\<rparr>))"

text \<open>\<^verbatim>\<open>plt.close()\<close> removes the current figure from the registry, if there is one.\<close>

definition plt_close :: stmt where
  "plt_close w =
     (None, if open_figs w = [] then w
            else w\<lparr>open_figs := filter (\<lambda>e. fst e \<noteq> fst (last (open_figs w))) (open_figs w)\<rparr>)"

definition print :: "string \<Rightarrow> stmt" where
  "print s w = (None, w\<lparr>stdout := stdout w @ [s], io_log := io_log w @ [Printed s]\<rparr>)"

text \<open>A dictionary subscript \<^verbatim>\<open>d[k]\<close> in an argument: \<^verbatim>\<open>KeyError\<close> when the key is missing.\<close>

definition with_item :: "(string \<times> string) list \<Rightarrow> string \<Rightarrow> (string \<Rightarrow> stmt) \<Rightarrow> stmt" where
  "with_item d k call w =
     (case map_of d k of None \<Rightarrow> (Some (KeyError k), w) | Some v \<Rightarrow> call v w)"

section \<open>The script\<close>

text \<open>
  The three characters outside ASCII that the script's literals contain, as their
  UTF-8 bytes: the bullet U+2022, the rightwards arrow U+2192 and the check mark
  U+2705.
\<close>

definition bullet :: string where
  "bullet = [CHR 0xE2, CHR 0x80, CHR 0xA2]"

definition rarrow :: string where
  "rarrow = [CHR 0xE2, CHR 0x86, CHR 0x92]"

definition check_mark :: string where
  "check_mark = [CHR 0xE2, CHR 0x9C, CHR 0x85]"

definition colors :: "(string \<times> string) list" where
  "colors =
     [(''input'', ''#E3F2FD''),
      (''analyze'', ''#FFECB3''),
      (''think'', ''#F3E5F5''),
      (''tools'', ''#E8F5E8''),
      (''synthesize'', ''#FFF3E0''),
      (''output'', ''#FAFAFA''),
      (''arrow'', ''#666666''),
      (''text'', ''#333333'')]"

text \<open>The \<^verbatim>\<open>bbox=dict(...)\<close> argument that the small text chips share.\<close>

definition chip :: pyval where
  "chip = Dict [(''boxstyle'', Str ''round,pad=0.3''), (''facecolor'', Str ''white'')]"

definition canvas_setup :: "nat \<Rightarrow> stmt list" where
  "canvas_setup ax = [ax_set_xlim ax 0 16, ax_set_ylim ax 0 12, ax_axis ax ''off'']"

definition title :: "nat \<Rightarrow> stmt list" where
  "title ax =
     [with_item colors ''text'' (\<lambda>c.
        ax_text ax 8 11.5 ''ThinkingCindyAgent - LangGraph Architecture''
          [(''fontsize'', Num 20), (''fontweight'', Str ''bold''), (''ha'', Str ''center''),
           (''color'', Str c)])]"

definition phase1 :: "nat \<Rightarrow> stmt list" where
  "phase1 ax =
     [with_item colors ''input'' (\<lambda>c.
        ax_add_patch ax (FancyBboxPatch (1, 9.5) 3 1.2
          [(''boxstyle'', Str ''round,pad=0.1''), (''facecolor'', Str c),
           (''edgecolor'', Str ''black''), (''linewidth'', Num 2)])),
      ax_text ax 2.5 10.1 ''PHASE 1: INPUT''
        [(''fontsize'', Num 12), (''fontweight'', Str ''bold''), (''ha'', Str ''center'')],
      ax_text ax 2.5 9.8 ''analyzeInput()''
        [(''fontsize'', Num 10), (''ha'', Str ''center''), (''style'', Str ''italic'')],
      ax_text ax 2.5 9.6
        (bullet @ '' Parse hashtags\<newline>'' @ bullet @ '' Extract clean input\<newline>'' @
         bullet @ '' Identify forced tools'')
        [(''fontsize'', Num 9), (''ha'', Str ''center''), (''va'', Str ''center'')]]"

definition phase2 :: "nat \<Rightarrow> stmt list" where
  "phase2 ax =
     [with_item colors ''think'' (\<lambda>c.
        ax_add_patch ax (FancyBboxPatch (6, 9.5) 3 1.2
          [(''boxstyle'', Str ''round,pad=0.1''), (''facecolor'', Str c),
           (''edgecolor'', Str ''black''), (''linewidth'', Num 2)])),
      ax_text ax 7.5 10.1 ''PHASE 2: THINKING''
        [(''fontsize'', Num 12), (''fontweight'', Str ''bold''), (''ha'', Str ''center'')],
      ax_text ax 7.5 9.8 ''createThinkingPlan()''
        [(''fontsize'', Num 10), (''ha'', Str ''center''), (''style'', Str ''italic'')],
      ax_text ax 7.5 9.6
        (bullet @ '' LLM planning call\<newline>'' @ bullet @ '' Tool suggestion\<newline>'' @
         bullet @ '' Create execution plan'')
        [(''fontsize'', Num 9), (''ha'', Str ''center''), (''va'', Str ''center'')]]"

definition phase3 :: "nat \<Rightarrow> stmt list" where
  "phase3 ax =
     [with_item colors ''tools'' (\<lambda>c.
        ax_add_patch ax (FancyBboxPatch (11, 9.5) 3 1.2
          [(''boxstyle'', Str ''round,pad=0.1''), (''facecolor'', Str c),
           (''edgecolor'', Str ''black''), (''linewidth'', Num 2)])),
      ax_text ax 12.5 10.1 ''PHASE 3: TOOLS''
        [(''fontsize'', Num 12), (''fontweight'', Str ''bold''), (''ha'', Str ''center'')],
      ax_text ax 12.5 9.8 ''executeTools()''
        [(''fontsize'', Num 10), (''ha'', Str ''center''), (''style'', Str ''italic'')],
      ax_text ax 12.5 9.6
        (bullet @ '' Run planned tools\<newline>'' @ bullet @ '' Collect results\<newline>'' @
         bullet @ '' Handle errors'')
        [(''fontsize'', Num 9), (''ha'', Str ''center''), (''va'', Str ''center'')]]"

definition phase4 :: "nat \<Rightarrow> stmt list" where
  "phase4 ax =
     [with_item colors ''synthesize'' (\<lambda>c.
        ax_add_patch ax (FancyBboxPatch (6, 7.5) 3 1.2
          [(''boxstyle'', Str ''round,pad=0.1''), (''facecolor'', Str c),
           (''edgecolor'', Str ''black''), (''linewidth'', Num 2)])),
      ax_text ax 7.5 8.1 ''PHASE 4: SYNTHESIS''
        [(''fontsize'', Num 12), (''fontweight'', Str ''bold''), (''ha'', Str ''center'')],
      ax_text ax 7.5 7.8 ''synthesizeResponse()''
        [(''fontsize'', Num 10), (''ha'', Str ''center''), (''style'', Str ''italic'')],
      ax_text ax 7.5 7.6
        (bullet @ '' Final LLM call\<newline>'' @ bullet @ '' Combine tool results\<newline>'' @
         bullet @ '' Generate citations'')
        [(''fontsize'', Num 9), (''ha'', Str ''center''), (''va'', Str ''center'')]]"

definition tools_section :: "nat \<Rightarrow> stmt list" where
  "tools_section ax =
     [ax_add_patch ax (FancyBboxPatch (1, 5.5) 6 1.5
        [(''boxstyle'', Str ''round,pad=0.1''), (''facecolor'', Str ''#F5F5F5''),
         (''edgecolor'', Str ''black''), (''linewidth'', Num 1)]),
      ax_text ax 4 6.8 ''AVAILABLE TOOLS''
        [(''fontsize'', Num 12), (''fontweight'', Str ''bold''), (''ha'', Str ''center'')],
      ax_text ax 2 6.4 (bullet @ '' search_documents'')
        [(''fontsize'', Num 10), (''ha'', Str ''left'')],
      ax_text ax 2 6.1 (bullet @ '' read_file'')
        [(''fontsize'', Num 10), (''ha'', Str ''left'')],
      ax_text ax 2 5.8 (bullet @ '' write_file'')
        [(''fontsize'', Num 10), (''ha'', Str ''left'')],
      ax_text ax 4.5 6.4 (bullet @ '' web_search'')
        [(''fontsize'', Num 10), (''ha'', Str ''left'')],
      ax_text ax 4.5 6.1 (bullet @ '' brave_search'')
        [(''fontsize'', Num 10), (''ha'', Str ''left'')],
      ax_text ax 4.5 5.8 (bullet @ '' list_directory'')
        [(''fontsize'', Num 10), (''ha'', Str ''left'')]]"

definition hashtag_section :: "nat \<Rightarrow> stmt list" where
  "hashtag_section ax =
     [ax_add_patch ax (FancyBboxPatch (9, 5.5) 6 1.5
        [(''boxstyle'', Str ''round,pad=0.1''), (''facecolor'', Str ''#FFF9C4''),
         (''edgecolor'', Str ''black''), (''linewidth'', Num 1)]),
      ax_text ax 12 6.8 ''HASHTAG TOOL FORCING''
        [(''fontsize'', Num 12), (''fontweight'', Str ''bold''), (''ha'', Str ''center'')],
      ax_text ax 10 6.4 (''#search '' @ rarrow @ '' search_documents'')
        [(''fontsize'', Num 10), (''ha'', Str ''left'')],
      ax_text ax 10 6.1 (''#read '' @ rarrow @ '' read_file'')
        [(''fontsize'', Num 10), (''ha'', Str ''left'')],
      ax_text ax 10 5.8 (''#web '' @ rarrow @ '' web_search_preferred'')
        [(''fontsize'', Num 10), (''ha'', Str ''left'')],
      ax_text ax 13 6.4 (''#write '' @ rarrow @ '' write_file'')
        [(''fontsize'', Num 10), (''ha'', Str ''left'')],
      ax_text ax 13 6.1 (''#brave '' @ rarrow @ '' brave_search'')
        [(''fontsize'', Num 10), (''ha'', Str ''left'')],
      ax_text ax 13 5.8 (''#dir '' @ rarrow @ '' list_directory'')
        [(''fontsize'', Num 10), (''ha'', Str ''left'')]]"

definition stream_section :: "nat \<Rightarrow> stmt list" where
  "stream_section ax =
     [ax_add_patch ax (FancyBboxPatch (1, 3.5) 14 1.5
        [(''boxstyle'', Str ''round,pad=0.1''), (''facecolor'', Str ''#E1F5FE''),
         (''edgecolor'', Str ''blue''), (''linewidth'', Num 2)]),
      ax_text ax 8 4.7 ''STREAMING PROCESS (processStreaming)''
        [(''fontsize'', Num 14), (''fontweight'', Str ''bold''), (''ha'', Str ''center'')],
      ax_text ax 2 4.3 ''<think> blocks''
        [(''fontsize'', Num 10), (''ha'', Str ''left''), (''bbox'', chip)],
      ax_text ax 5 4.3 ''<tool> execution''
        [(''fontsize'', Num 10), (''ha'', Str ''left''), (''bbox'', chip)],
      ax_text ax 8.5 4.3 ''Real-time progress''
        [(''fontsize'', Num 10), (''ha'', Str ''left''), (''bbox'', chip)],
      ax_text ax 12 4.3 ''Structured output''
        [(''fontsize'', Num 10), (''ha'', Str ''left''), (''bbox'', chip)],
      ax_text ax 8 3.8
        ''Emits structured tokens for UI rendering: thinking blocks, tool calls, progress updates''
        [(''fontsize'', Num 10), (''ha'', Str ''center''), (''style'', Str ''italic'')]]"

definition llm_section :: "nat \<Rightarrow> stmt list" where
  "llm_section ax =
     [ax_add_patch ax (FancyBboxPatch (1, 1.5) 14 1.5
        [(''boxstyle'', Str ''round,pad=0.1''), (''facecolor'', Str ''#FCE4EC''),
         (''edgecolor'', Str ''purple''), (''linewidth'', Num 2)]),
      ax_text ax 8 2.7 ''LLM INTEGRATION POINTS''
        [(''fontsize'', Num 14), (''fontweight'', Str ''bold''), (''ha'', Str ''center'')],
      ax_text ax 3 2.3 ''1. Planning Call''
        [(''fontsize'', Num 11), (''ha'', Str ''center''), (''bbox'', chip)],
      ax_text ax 3 2.0 ''createThinkingPlan()''
        [(''fontsize'', Num 9), (''ha'', Str ''center''), (''style'', Str ''italic'')],
      ax_text ax 8 2.3 ''2. Direct Response''
        [(''fontsize'', Num 11), (''ha'', Str ''center''), (''bbox'', chip)],
      ax_text ax 8 2.0 ''Simple greetings''
        [(''fontsize'', Num 9), (''ha'', Str ''center''), (''style'', Str ''italic'')],
      ax_text ax 13 2.3 ''3. Synthesis Call''
        [(''fontsize'', Num 11), (''ha'', Str ''center''), (''bbox'', chip)],
      ax_text ax 13 2.0 ''synthesizeResponse()''
        [(''fontsize'', Num 9), (''ha'', Str ''center''), (''style'', Str ''italic'')],
      ax_text ax 8 1.7
        ''Smart routing: Simple greetings = 1 call | Complex requests = 2 calls''
        [(''fontsize'', Num 10), (''ha'', Str ''center''), (''style'', Str ''italic''),
         (''color'', Str ''purple'')]]"

definition arrows :: "nat \<Rightarrow> stmt list" where
  "arrows ax =
     [with_item colors ''arrow'' (\<lambda>c.
        ax_add_patch ax (ConnectionPatch (4, 10.1) (6, 10.1) ''data'' ''data''
          [(''arrowstyle'', Str ''->''), (''shrinkA'', Num 5), (''shrinkB'', Num 5),
           (''mutation_scale'', Num 20), (''fc'', Str c)])),
      with_item colors ''arrow'' (\<lambda>c.
        ax_add_patch ax (ConnectionPatch (9, 10.1) (11, 10.1) ''data'' ''data''
          [(''arrowstyle'', Str ''->''), (''shrinkA'', Num 5), (''shrinkB'', Num 5),
           (''mutation_scale'', Num 20), (''fc'', Str c)])),
      with_item colors ''arrow'' (\<lambda>c.
        ax_add_patch ax (ConnectionPatch (12.5, 9.5) (7.5, 8.7) ''data'' ''data''
          [(''arrowstyle'', Str ''->''), (''shrinkA'', Num 5), (''shrinkB'', Num 5),
           (''mutation_scale'', Num 20), (''fc'', Str c)])),
      ax_add_patch ax (ConnectionPatch (4, 5.5) (12.5, 9.5) ''data'' ''data''
        [(''arrowstyle'', Str ''->''), (''shrinkA'', Num 5), (''shrinkB'', Num 5),
         (''mutation_scale'', Num 15), (''fc'', Str ''green''), (''alpha'', Num 0.7)]),
      ax_add_patch ax (ConnectionPatch (12, 5.5) (2.5, 9.5) ''data'' ''data''
        [(''arrowstyle'', Str ''->''), (''shrinkA'', Num 5), (''shrinkB'', Num 5),
         (''mutation_scale'', Num 15), (''fc'', Str ''orange''), (''alpha'', Num 0.7)])]"

definition footer :: "nat \<Rightarrow> stmt list" where
  "footer ax =
     [ax_text ax 8 0.5
        ''ThinkingCindyAgent: Multi-phase AI reasoning with tool execution and streaming output''
        [(''fontsize'', Num 12), (''ha'', Str ''center''), (''style'', Str ''italic''),
         (''color'', Str ''gray'')]]"

definition out_path :: string where
  "out_path = ''/Users/karwo09/code/voice-assistant/langgraph_architecture.png''"

definition message :: string where
  "message =
     check_mark @ '' LangGraph architecture diagram saved as '' @
     [CHR 0x27] @ ''langgraph_architecture.png'' @ [CHR 0x27]"

definition export :: "stmt list" where
  "export =
     [plt_tight_layout,
      plt_savefig out_path
        [(''dpi'', Num 300), (''bbox_inches'', Str ''tight''), (''facecolor'', Str ''white'')],
      plt_close,
      print message]"

text \<open>The statements after \<^verbatim>\<open>fig, ax = plt.subplots(...)\<close>, in the order of the source.\<close>

definition drawing :: "nat \<Rightarrow> stmt list" where
  "drawing ax =
     title ax @ phase1 ax @ phase2 ax @ phase3 ax @ phase4 ax @
     tools_section ax @ hashtag_section ax @ stream_section ax @ llm_section ax @
     arrows ax @ footer ax"

definition body :: "nat \<Rightarrow> stmt list" where
  "body ax = canvas_setup ax @ drawing ax @ export"

definition create_langgraph_diagram :: "world \<Rightarrow> exn option \<times> world" where
  "create_langgraph_diagram w =
     (case plt_subplots 1 1 (16, 12) w of (ax, w') \<Rightarrow> exec (body ax) w')"


section \<open>Painting order\<close>

text \<open>
  The script passes no \<^verbatim>\<open>zorder\<close> to any call, so the order in which the library
  paints the elements comes from the library alone: matplotlib draws the elements
  of an axes sorted by their \<^verbatim>\<open>zorder\<close> with a stable sort, the class default being
  1 for a patch (\<^verbatim>\<open>Patch.zorder\<close>, which the box and the connection inherit) and 3
  for a text (\<^verbatim>\<open>Text.zorder\<close>); a \<^verbatim>\<open>zorder\<close> keyword would replace the default.
\<close>

fun artist_kwargs :: "artist \<Rightarrow> kwargs" where
  "artist_kwargs (Text x y s kw) = kw"
| "artist_kwargs (FancyBboxPatch xy w h kw) = kw"
| "artist_kwargs (ConnectionPatch a b ca cb kw) = kw"


fun is_box :: "artist \<Rightarrow> bool" where
  "is_box (Text x y s kw) = False"
| "is_box (FancyBboxPatch xy w h kw) = True"
| "is_box (ConnectionPatch a b ca cb kw) = False"

fun is_connection :: "artist \<Rightarrow> bool" where
  "is_connection (Text x y s kw) = False"
| "is_connection (FancyBboxPatch xy w h kw) = False"
| "is_connection (ConnectionPatch a b ca cb kw) = True"





text \<open>A point on the border of the rectangle a box was created with.\<close>

fun on_border :: "point \<Rightarrow> artist \<Rightarrow> bool" where
  "on_border (x, y) (FancyBboxPatch (x0, y0) w h kw) =
     (((x = x0 \<or> x = x0 + w) \<and> y0 \<le> y \<and> y \<le> y0 + h) \<or>
      ((y = y0 \<or> y = y0 + h) \<and> x0 \<le> x \<and> x \<le> x0 + w))"
| "on_border p (Text x y s kw) = False"
| "on_border p (ConnectionPatch a b ca cb kw) = False"

section \<open>Runs and their intermediate states\<close>

text \<open>
  A process that has just started, with \<open>ds\<close> the directories it can write to:
  no figure is open and nothing has been printed or written.
\<close>

definition fresh :: "string set \<Rightarrow> world" where
  "fresh ds =
     \<lparr>figures = (\<lambda>i. new_figure (6.4, 4.8)), next_obj = 0, open_figs = [], dirs = ds,
      files = Map.empty, stdout = [], io_log = [], argv = [], environ = Map.empty\<rparr>"

text \<open>
  The run cut off after the first \<open>k\<close> statements that follow the creation of the
  figure (62 in all: 3 that set the axes up, 55 that add an element, 4 that
  export), and the figure the run created as it is at that moment.
\<close>

definition state_after :: "nat \<Rightarrow> world \<Rightarrow> exn option \<times> world" where
  "state_after k w =
     (case plt_subplots 1 1 (16, 12) w of (ax, w') \<Rightarrow> exec (take k (body ax)) w')"

definition canvas_after :: "nat \<Rightarrow> world \<Rightarrow> figure" where
  "canvas_after k w = figures (snd (state_after k w)) (next_obj w)"

text \<open>The function called \<open>n\<close> times in a row.\<close>

fun runs :: "nat \<Rightarrow> world \<Rightarrow> world" where
  "runs 0 w = w"
| "runs (Suc n) w = snd (create_langgraph_diagram (runs n w))"

text \<open>The directory of the output path, and the image formats that are rasters.\<close>

definition target_dir :: string where
  "target_dir = ''/Users/karwo09/code/voice-assistant/''"

definition raster_formats :: "string set" where
  "raster_formats = {''png'', ''jpg'', ''jpeg'', ''tif'', ''tiff'', ''webp'', ''raw'', ''rgba''}"

subsection \<open>Auxiliary notions for the proofs\<close>

text \<open>
  \<open>draw\<close> appends elements to the axes \<open>ax\<close>; a statement \<open>paints\<close> an element when
  that is all it does, in every state. \<open>painted\<close> reads the element off a run of the
  statement on a fresh state, and \<open>diagram\<close> lists the elements of the drawing
  statements in order.
\<close>

definition draw :: "nat \<Rightarrow> artist list \<Rightarrow> world \<Rightarrow> world" where
  "draw ax as w = update_fig ax (\<lambda>f. f\<lparr>children := children f @ as\<rparr>) w"

definition paints :: "nat \<Rightarrow> stmt \<Rightarrow> artist \<Rightarrow> bool" where
  "paints ax s a \<longleftrightarrow> (\<forall>w. s w = (None, draw ax [a] w))"

definition painted :: "stmt \<Rightarrow> artist" where
  "painted s = last (children (figures (snd (s (fresh {}))) 0))"

definition diagram :: "artist list" where
  "diagram = map painted (drawing 0)"

text \<open>
  The figure once the axes are set up, with elements \<open>cs\<close>; a state in which the
  run's figure \<open>f\<close> is open; the image the export stores; and the state after
  \<^verbatim>\<open>plt.close()\<close>.
\<close>

definition canvas :: "artist list \<Rightarrow> bool \<Rightarrow> figure" where
  "canvas cs t =
     \<lparr>figsize = (16, 12), xlim = (0, 16), ylim = (0, 12), axison = False, children = cs,
      tight = t\<rparr>"

definition opened :: "figure \<Rightarrow> world \<Rightarrow> world" where
  "opened f w =
     w\<lparr>figures := (figures w)(next_obj w := f), next_obj := Suc (next_obj w),
       open_figs := open_figs w @ [(next_num (open_figs w), next_obj w)]\<rparr>"

definition the_image :: image where
  "the_image =
     \<lparr>fmt = ''png'',
      options = [(''dpi'', Num 300), (''bbox_inches'', Str ''tight''), (''facecolor'', Str ''white'')],
      picture = canvas diagram True\<rparr>"

definition saved :: "world \<Rightarrow> world" where
  "saved w =
     w\<lparr>figures := (figures w)(next_obj w := canvas diagram True),
       next_obj := Suc (next_obj w),
       files := (files w)(out_path \<mapsto> the_image),
       io_log := io_log w @ [FileWritten out_path]\<rparr>"

definition finished :: "world \<Rightarrow> world" where
  "finished w =
     (saved w)\<lparr>stdout := stdout w @ [message],
               io_log := io_log w @ [FileWritten out_path, Printed message]\<rparr>"

definition failed :: "world \<Rightarrow> world" where
  "failed w = (opened (canvas diagram True) w)\<lparr>io_log := io_log w @ [OpenFailed out_path]\<rparr>"

section \<open>Executing the script\<close>

lemma exec_append:
  "exec (xs @ ys) w = (case exec xs w of (None, w') \<Rightarrow> exec ys w' | (Some e, w') \<Rightarrow> (Some e, w'))"
  by (induction xs arbitrary: w) (auto split: prod.splits option.splits)

lemma draw_nil: "draw ax [] w = w"
  by (simp add: draw_def update_fig_def)

lemma draw_draw: "draw ax bs (draw ax as w) = draw ax (as @ bs) w"
  by (simp add: draw_def update_fig_def)

lemma exec_paints:
  "list_all2 (paints ax) ss as \<Longrightarrow> exec ss w = (None, draw ax as w)"
proof (induction ss as arbitrary: w rule: list_all2_induct)
  case Nil
  show ?case by (simp add: draw_nil)
next
  case (Cons s ss a as)
  from Cons.hyps(1) have "s w = (None, draw ax [a] w)" by (simp add: paints_def)
  then show ?case by (simp add: Cons.IH draw_draw)
qed

lemma with_item_eval:
  "with_item d k call = (case map_of d k of None \<Rightarrow> (\<lambda>w. (Some (KeyError k), w)) | Some v \<Rightarrow> call v)"
  by (rule ext) (simp add: with_item_def split: option.split)

lemma paints_text: "paints ax (ax_text ax x y s kw) (Text x y s kw)"
  by (simp add: paints_def ax_text_def add_artist_def draw_def)

lemma paints_patch: "paints ax (ax_add_patch ax p) p"
  by (simp add: paints_def ax_add_patch_def add_artist_def draw_def)

lemma painted_paints: "paints 0 s a \<Longrightarrow> painted s = a"
  by (simp add: painted_def paints_def draw_def update_fig_def fresh_def)

lemma painted_text: "painted (ax_text 0 x y s kw) = Text x y s kw"
  by (rule painted_paints [OF paints_text])

lemma painted_patch: "painted (ax_add_patch 0 p) = p"
  by (rule painted_paints [OF paints_patch])

lemmas paint_simps = list_all2_map2 with_item_eval colors_def painted_text painted_patch
  paints_text paints_patch

lemma title_paints: "list_all2 (paints ax) (title ax) (map painted (title 0))"
  unfolding title_def by (simp add: paint_simps)

lemma phase1_paints: "list_all2 (paints ax) (phase1 ax) (map painted (phase1 0))"
  unfolding phase1_def by (simp add: paint_simps)

lemma phase2_paints: "list_all2 (paints ax) (phase2 ax) (map painted (phase2 0))"
  unfolding phase2_def by (simp add: paint_simps)

lemma phase3_paints: "list_all2 (paints ax) (phase3 ax) (map painted (phase3 0))"
  unfolding phase3_def by (simp add: paint_simps)

lemma phase4_paints: "list_all2 (paints ax) (phase4 ax) (map painted (phase4 0))"
  unfolding phase4_def by (simp add: paint_simps)

lemma tools_section_paints:
  "list_all2 (paints ax) (tools_section ax) (map painted (tools_section 0))"
  unfolding tools_section_def by (simp add: paint_simps)

lemma hashtag_section_paints:
  "list_all2 (paints ax) (hashtag_section ax) (map painted (hashtag_section 0))"
  unfolding hashtag_section_def by (simp add: paint_simps)

lemma stream_section_paints:
  "list_all2 (paints ax) (stream_section ax) (map painted (stream_section 0))"
  unfolding stream_section_def by (simp add: paint_simps)

lemma llm_section_paints:
  "list_all2 (paints ax) (llm_section ax) (map painted (llm_section 0))"
  unfolding llm_section_def by (simp add: paint_simps)

lemma arrows_paints: "list_all2 (paints ax) (arrows ax) (map painted (arrows 0))"
  unfolding arrows_def by (simp add: paint_simps)

lemma footer_paints: "list_all2 (paints ax) (footer ax) (map painted (footer 0))"
  unfolding footer_def by (simp add: paint_simps)

lemma drawing_paints: "list_all2 (paints ax) (drawing ax) diagram"
  unfolding diagram_def drawing_def map_append
  by (intro list_all2_appendI title_paints phase1_paints phase2_paints phase3_paints
      phase4_paints tools_section_paints hashtag_section_paints stream_section_paints
      llm_section_paints arrows_paints footer_paints)

lemma length_drawing: "length (drawing ax) = 55"
  by (simp add: drawing_def title_def phase1_def phase2_def phase3_def phase4_def
      tools_section_def hashtag_section_def stream_section_def llm_section_def arrows_def
      footer_def)

lemma length_diagram: "length diagram = 55"
  using list_all2_lengthD [OF drawing_paints [of 0]] by (simp add: length_drawing)

lemma exec_drawing_prefix:
  "exec (take j (drawing ax)) w = (None, draw ax (take j diagram) w)"
  by (rule exec_paints) (rule list_all2_takeI [OF drawing_paints])

lemma exec_canvas_setup:
  "exec (canvas_setup ax) w =
     (None, update_fig ax (\<lambda>f. f\<lparr>xlim := (0, 16), ylim := (0, 12), axison := False\<rparr>) w)"
  by (simp add: canvas_setup_def ax_set_xlim_def ax_set_ylim_def ax_axis_def update_fig_def)

lemma subplots_opened: "plt_subplots r c sz w = (next_obj w, opened (new_figure sz) w)"
  by (simp add: plt_subplots_def opened_def)

lemma length_canvas_setup: "length (canvas_setup ax) = 3"
  by (simp add: canvas_setup_def)

lemma length_export: "length export = 4"
  by (simp add: export_def)

lemma take_body:
  "take k (body ax) =
     take k (canvas_setup ax) @ take (k - 3) (drawing ax) @ take (k - 58) export"
  by (simp add: body_def length_canvas_setup length_drawing)

lemma state_after_drawing:
  assumes "3 \<le> k" and "k \<le> 58"
  shows "state_after k w = (None, opened (canvas (take (k - 3) diagram) False) w)"
  using assms
  by (simp add: state_after_def take_body length_canvas_setup subplots_opened exec_append
      exec_canvas_setup exec_drawing_prefix draw_def update_fig_def opened_def canvas_def
      new_figure_def)

lemma state_after_0: "state_after 0 w = (None, opened (new_figure (16, 12)) w)"
  by (simp add: state_after_def subplots_opened)

lemma state_after_1:
  "state_after 1 w = (None, opened ((new_figure (16, 12))\<lparr>xlim := (0, 16)\<rparr>) w)"
  by (simp add: state_after_def take_body canvas_setup_def subplots_opened ax_set_xlim_def
      update_fig_def opened_def)

lemma state_after_2:
  "state_after 2 w =
     (None, opened ((new_figure (16, 12))\<lparr>xlim := (0, 16), ylim := (0, 12)\<rparr>) w)"
  by (simp add: state_after_def take_body canvas_setup_def subplots_opened ax_set_xlim_def
      ax_set_ylim_def update_fig_def opened_def)

lemma fold_max_ge: "a \<le> fold max xs (a::nat) \<and> (\<forall>x\<in>set xs. x \<le> fold max xs a)"
proof (induction xs arbitrary: a)
  case Nil
  show ?case by simp
next
  case (Cons y ys)
  from Cons.IH [of "max y a"] show ?case by auto
qed

lemma next_num_fresh: "e \<in> set reg \<Longrightarrow> fst e < next_num reg"
  using fold_max_ge [of 0 "map fst reg"] by (auto simp: next_num_def less_Suc_eq_le)

lemma keep_registered: "filter (\<lambda>e. fst e \<noteq> next_num reg) reg = reg"
  by (rule filter_True) (use next_num_fresh [of _ reg] in fastforce)

lemma gcf_opened: "gcf (opened f w) = (next_obj w, opened f w)"
  by (simp add: gcf_def opened_def)

lemma exec_tight_layout:
  "plt_tight_layout (opened (canvas cs False) w) = (None, opened (canvas cs True) w)"
  by (simp add: plt_tight_layout_def gcf_opened) (simp add: update_fig_def opened_def canvas_def)

lemma parent_dir_out_path: "parent_dir out_path = target_dir"
  by (simp add: parent_dir_def out_path_def target_dir_def)

lemma file_format_out_path: "file_format out_path = ''png''"
  by (simp add: file_format_def base_name_def out_path_def)

lemma exec_savefig_ok:
  assumes "target_dir \<in> dirs w"
  shows "plt_savefig out_path
           [(''dpi'', Num 300), (''bbox_inches'', Str ''tight''), (''facecolor'', Str ''white'')]
           (opened (canvas diagram True) w) =
         (None, (opened (canvas diagram True) w)
                  \<lparr>files := (files w)(out_path \<mapsto> the_image),
                   io_log := io_log w @ [FileWritten out_path]\<rparr>)"
  using assms
  by (simp add: plt_savefig_def gcf_opened parent_dir_out_path file_format_out_path the_image_def)
    (simp add: opened_def)

lemma exec_savefig_fail:
  assumes "target_dir \<notin> dirs w"
  shows "plt_savefig out_path kw (opened f w) =
         (Some (OSError out_path), (opened f w)\<lparr>io_log := io_log w @ [OpenFailed out_path]\<rparr>)"
  using assms
  by (simp add: plt_savefig_def gcf_opened parent_dir_out_path) (simp add: opened_def)

lemma exec_close:
  "plt_close ((opened f w)\<lparr>files := fs, io_log := l\<rparr>) =
     (None, w\<lparr>figures := (figures w)(next_obj w := f), next_obj := Suc (next_obj w),
              files := fs, io_log := l\<rparr>)"
  by (simp add: plt_close_def opened_def keep_registered)

lemma state_after_59: "state_after 59 w = (None, opened (canvas diagram True) w)"
proof -
  have "state_after 59 w = exec (take 1 export) (opened (canvas (take 55 diagram) False) w)"
    using state_after_drawing [of 58 w]
    by (simp add: state_after_def take_body length_canvas_setup length_drawing subplots_opened
        exec_append split: prod.splits option.splits)
  then show ?thesis
    by (simp add: export_def exec_tight_layout length_diagram)
qed


lemma state_after_60_ok:
  assumes "target_dir \<in> dirs w"
  shows "state_after 60 w = (None, (opened (canvas diagram True) w)
                  \<lparr>files := (files w)(out_path \<mapsto> the_image),
                   io_log := io_log w @ [FileWritten out_path]\<rparr>)"
proof -
  have "state_after 60 w = exec (take 2 export) (opened (canvas (take 55 diagram) False) w)"
    using state_after_drawing [of 58 w]
    by (simp add: state_after_def take_body length_canvas_setup length_drawing subplots_opened
        exec_append split: prod.splits option.splits)
  then show ?thesis
    by (simp add: export_def exec_tight_layout length_diagram exec_savefig_ok [OF assms])
qed

lemma state_after_61_ok:
  assumes "target_dir \<in> dirs w"
  shows "state_after 61 w = (None, saved w)"
proof -
  have "state_after 61 w = exec (take 3 export) (opened (canvas (take 55 diagram) False) w)"
    using state_after_drawing [of 58 w]
    by (simp add: state_after_def take_body length_canvas_setup length_drawing subplots_opened
        exec_append split: prod.splits option.splits)
  then show ?thesis
    by (simp add: export_def exec_tight_layout length_diagram exec_savefig_ok [OF assms]
        exec_close saved_def)
qed

lemma state_after_end_ok:
  assumes "target_dir \<in> dirs w" and "62 \<le> k"
  shows "state_after k w = (None, finished w)"
proof -
  have "state_after k w = exec export (opened (canvas (take 55 diagram) False) w)"
    using state_after_drawing [of 58 w] assms(2)
    by (simp add: state_after_def take_body length_canvas_setup length_drawing length_export
        subplots_opened exec_append split: prod.splits option.splits)
  then show ?thesis
    by (simp add: export_def exec_tight_layout length_diagram exec_savefig_ok [OF assms(1)]
        exec_close saved_def finished_def print_def)
qed

lemma state_after_fail:
  assumes "target_dir \<notin> dirs w" and "60 \<le> k"
  shows "state_after k w = (Some (OSError out_path), failed w)"
proof -
  have "state_after k w =
          exec (take (k - 58) export) (opened (canvas (take 55 diagram) False) w)"
    using state_after_drawing [of 58 w] assms(2)
    by (simp add: state_after_def take_body length_canvas_setup length_drawing
        subplots_opened exec_append split: prod.splits option.splits)
  moreover have "take (k - 58) export = take 2 export @ take (k - 60) (drop 2 export)"
    using assms(2) by (simp add: export_def take_Cons')
  ultimately show ?thesis
    by (simp add: export_def exec_append exec_tight_layout length_diagram
        exec_savefig_fail [OF assms(1)] failed_def)
qed

lemma create_is_state_after: "create_langgraph_diagram w = state_after 62 w"
  by (simp add: create_langgraph_diagram_def state_after_def body_def canvas_setup_def
      length_drawing export_def)

lemma create_ok:
  "target_dir \<in> dirs w \<Longrightarrow> create_langgraph_diagram w = (None, finished w)"
  by (simp add: create_is_state_after state_after_end_ok)

lemma create_fail:
  "target_dir \<notin> dirs w \<Longrightarrow> create_langgraph_diagram w = (Some (OSError out_path), failed w)"
  by (simp add: create_is_state_after state_after_fail)

lemma create_cases:
  "create_langgraph_diagram w =
     (if target_dir \<in> dirs w then (None, finished w) else (Some (OSError out_path), failed w))"
  by (simp add: create_ok create_fail)

lemma create_NoneD:
  assumes "create_langgraph_diagram w = (None, w')"
  shows "target_dir \<in> dirs w" and "w' = finished w"
  using assms by (auto simp: create_cases split: if_splits)

lemma state_after_late:
  assumes "59 \<le> k"
  shows "\<exists>r v. state_after k w = (r, v) \<and> figures v (next_obj w) = canvas diagram True"
proof (cases "target_dir \<in> dirs w")
  case False
  from assms consider "k = 59" | "60 \<le> k" by linarith
  then show ?thesis
  proof cases
    case 1
    then show ?thesis by (simp add: state_after_59 opened_def)
  next
    case 2
    then show ?thesis by (simp add: state_after_fail [OF False] failed_def opened_def)
  qed
next
  case True
  from assms consider "k = 59" | "k = 60" | "k = 61" | "62 \<le> k" by linarith
  then show ?thesis
  proof cases
    case 1
    then show ?thesis by (simp add: state_after_59 opened_def)
  next
    case 2
    then show ?thesis by (simp add: state_after_60_ok [OF True] opened_def)
  next
    case 3
    then show ?thesis by (simp add: state_after_61_ok [OF True] saved_def)
  next
    case 4
    then show ?thesis by (simp add: state_after_end_ok [OF True] finished_def saved_def)
  qed
qed

lemma canvas_after_late: "59 \<le> k \<Longrightarrow> canvas_after k w = canvas diagram True"
  using state_after_late [of k w] by (auto simp: canvas_after_def)

lemma canvas_after_drawing:
  "3 \<le> k \<Longrightarrow> k \<le> 58 \<Longrightarrow> canvas_after k w = canvas (take (k - 3) diagram) False"
  by (simp add: canvas_after_def state_after_drawing opened_def)

lemma canvas_after_0: "canvas_after 0 w = new_figure (16, 12)"
  by (simp add: canvas_after_def state_after_0 opened_def)

lemma canvas_after_1: "canvas_after (Suc 0) w = (new_figure (16, 12))\<lparr>xlim := (0, 16)\<rparr>"
  using state_after_1 [of w] by (simp add: canvas_after_def opened_def)

lemma canvas_after_2:
  "canvas_after 2 w = (new_figure (16, 12))\<lparr>xlim := (0, 16), ylim := (0, 12)\<rparr>"
  by (simp add: canvas_after_def state_after_2 opened_def)

lemma canvas_after_cases:
  fixes k :: nat
  obtains "k = 0" | "k = Suc 0" | "k = 2" | "3 \<le> k" "k \<le> 58" | "59 \<le> k"
  by linarith

lemma children_canvas_after: "children (canvas_after k w) = take (k - 3) diagram"
  by (cases k rule: canvas_after_cases)
    (simp_all add: canvas_after_0 canvas_after_1 canvas_after_2 canvas_after_drawing
      canvas_after_late new_figure_def canvas_def length_diagram)

lemma figsize_canvas_after: "figsize (canvas_after k w) = (16, 12)"
  by (cases k rule: canvas_after_cases)
    (simp_all add: canvas_after_0 canvas_after_1 canvas_after_2 canvas_after_drawing
      canvas_after_late new_figure_def canvas_def)

lemma limits_canvas_after:
  assumes "3 \<le> k"
  shows "xlim (canvas_after k w) = (0, 16)" and "ylim (canvas_after k w) = (0, 12)"
    and "\<not> axison (canvas_after k w)"
  using assms
  by (cases k rule: canvas_after_cases;
      simp add: canvas_after_drawing canvas_after_late canvas_def)+

section \<open>The elements of the finished canvas\<close>

lemmas section_defs = title_def phase1_def phase2_def phase3_def phase4_def tools_section_def
  hashtag_section_def stream_section_def llm_section_def arrows_def footer_def

lemma diagram_arrows:
  "filter is_connection diagram =
     [ConnectionPatch (4, 10.1) (6, 10.1) ''data'' ''data''
        [(''arrowstyle'', Str ''->''), (''shrinkA'', Num 5), (''shrinkB'', Num 5),
         (''mutation_scale'', Num 20), (''fc'', Str ''#666666'')],
      ConnectionPatch (9, 10.1) (11, 10.1) ''data'' ''data''
        [(''arrowstyle'', Str ''->''), (''shrinkA'', Num 5), (''shrinkB'', Num 5),
         (''mutation_scale'', Num 20), (''fc'', Str ''#666666'')],
      ConnectionPatch (12.5, 9.5) (7.5, 8.7) ''data'' ''data''
        [(''arrowstyle'', Str ''->''), (''shrinkA'', Num 5), (''shrinkB'', Num 5),
         (''mutation_scale'', Num 20), (''fc'', Str ''#666666'')],
      ConnectionPatch (4, 5.5) (12.5, 9.5) ''data'' ''data''
        [(''arrowstyle'', Str ''->''), (''shrinkA'', Num 5), (''shrinkB'', Num 5),
         (''mutation_scale'', Num 15), (''fc'', Str ''green''), (''alpha'', Num 0.7)],
      ConnectionPatch (12, 5.5) (2.5, 9.5) ''data'' ''data''
        [(''arrowstyle'', Str ''->''), (''shrinkA'', Num 5), (''shrinkB'', Num 5),
         (''mutation_scale'', Num 15), (''fc'', Str ''orange''), (''alpha'', Num 0.7)]]"
  by (simp add: diagram_def drawing_def section_defs with_item_eval colors_def painted_text
      painted_patch)

lemma diagram_boxes:
  "map (\<lambda>a. case a of FancyBboxPatch xy w h kw \<Rightarrow> (xy, w, h) | _ \<Rightarrow> ((0, 0), 0, 0))
     (filter is_box diagram) =
     [((1, 9.5), 3, 1.2), ((6, 9.5), 3, 1.2), ((11, 9.5), 3, 1.2), ((6, 7.5), 3, 1.2),
      ((1, 5.5), 6, 1.5), ((9, 5.5), 6, 1.5), ((1, 3.5), 14, 1.5), ((1, 1.5), 14, 1.5)]"
  by (simp add: diagram_def drawing_def section_defs with_item_eval colors_def painted_text
      painted_patch)



section \<open>The order in which the elements are painted\<close>








section \<open>Further facts the claims use\<close>

lemma runs_keep:
  assumes "target_dir \<in> dirs w"
  shows "open_figs (runs n w) = open_figs w \<and> dirs (runs n w) = dirs w"
proof (induction n)
  case 0
  show ?case by simp
next
  case (Suc n)
  with assms have "target_dir \<in> dirs (runs n w)" by simp
  then have "runs (Suc n) w = finished (runs n w)" by (simp add: create_ok)
  with Suc show ?case by (simp add: finished_def saved_def)
qed


lemma diagram_box_list:
  "filter is_box diagram =
     [FancyBboxPatch (1, 9.5) 3 1.2
        [(''boxstyle'', Str ''round,pad=0.1''), (''facecolor'', Str ''#E3F2FD''),
         (''edgecolor'', Str ''black''), (''linewidth'', Num 2)],
      FancyBboxPatch (6, 9.5) 3 1.2
        [(''boxstyle'', Str ''round,pad=0.1''), (''facecolor'', Str ''#F3E5F5''),
         (''edgecolor'', Str ''black''), (''linewidth'', Num 2)],
      FancyBboxPatch (11, 9.5) 3 1.2
        [(''boxstyle'', Str ''round,pad=0.1''), (''facecolor'', Str ''#E8F5E8''),
         (''edgecolor'', Str ''black''), (''linewidth'', Num 2)],
      FancyBboxPatch (6, 7.5) 3 1.2
        [(''boxstyle'', Str ''round,pad=0.1''), (''facecolor'', Str ''#FFF3E0''),
         (''edgecolor'', Str ''black''), (''linewidth'', Num 2)],
      FancyBboxPatch (1, 5.5) 6 1.5
        [(''boxstyle'', Str ''round,pad=0.1''), (''facecolor'', Str ''#F5F5F5''),
         (''edgecolor'', Str ''black''), (''linewidth'', Num 1)],
      FancyBboxPatch (9, 5.5) 6 1.5
        [(''boxstyle'', Str ''round,pad=0.1''), (''facecolor'', Str ''#FFF9C4''),
         (''edgecolor'', Str ''black''), (''linewidth'', Num 1)],
      FancyBboxPatch (1, 3.5) 14 1.5
        [(''boxstyle'', Str ''round,pad=0.1''), (''facecolor'', Str ''#E1F5FE''),
         (''edgecolor'', Str ''blue''), (''linewidth'', Num 2)],
      FancyBboxPatch (1, 1.5) 14 1.5
        [(''boxstyle'', Str ''round,pad=0.1''), (''facecolor'', Str ''#FCE4EC''),
         (''edgecolor'', Str ''purple''), (''linewidth'', Num 2)]]"
  by (simp add: diagram_def drawing_def section_defs with_item_eval colors_def painted_text
      painted_patch)

lemma children_finished_canvas: "children (canvas_after 62 w) = diagram"
  by (simp add: children_canvas_after length_diagram)




section \<open>The claims\<close>

text \<open>
  Claim C1. Every run that returns normally performs exactly one file operation:
  it writes the file at the absolute path
  \<^verbatim>\<open>/Users/karwo09/code/voice-assistant/langgraph_architecture.png\<close>. The file system
  changes at that path only, and what is stored there is a PNG (a raster format)
  exported with \<^verbatim>\<open>dpi=300\<close>, \<^verbatim>\<open>facecolor='white'\<close> and \<^verbatim>\<open>bbox_inches='tight'\<close>.
\<close>

theorem C1_one_png_at_the_fixed_path:
  assumes "create_langgraph_diagram w = (None, w')"
  shows "io_log w' = io_log w @
           [FileWritten ''/Users/karwo09/code/voice-assistant/langgraph_architecture.png'',
            Printed message] \<and>
         (\<exists>img. files w' =
             (files w)(''/Users/karwo09/code/voice-assistant/langgraph_architecture.png'' \<mapsto> img) \<and>
           fmt img = ''png'' \<and> fmt img \<in> raster_formats \<and>
           map_of (options img) ''dpi'' = Some (Num 300) \<and>
           map_of (options img) ''facecolor'' = Some (Str ''white'') \<and>
           map_of (options img) ''bbox_inches'' = Some (Str ''tight''))"
proof -
  from assms have w': "w' = finished w" by (rule create_NoneD)
  have log: "io_log w' = io_log w @
      [FileWritten ''/Users/karwo09/code/voice-assistant/langgraph_architecture.png'',
       Printed message]"
    by (simp add: w' finished_def out_path_def)
  have written: "files w' =
      (files w)(''/Users/karwo09/code/voice-assistant/langgraph_architecture.png'' \<mapsto> the_image)"
    by (simp add: w' finished_def saved_def out_path_def)
  have img: "fmt the_image = ''png''" "fmt the_image \<in> raster_formats"
    "map_of (options the_image) ''dpi'' = Some (Num 300)"
    "map_of (options the_image) ''facecolor'' = Some (Str ''white'')"
    "map_of (options the_image) ''bbox_inches'' = Some (Str ''tight'')"
    by (simp_all add: the_image_def raster_formats_def)
  from written img have "\<exists>img. files w' =
        (files w)(''/Users/karwo09/code/voice-assistant/langgraph_architecture.png'' \<mapsto> img) \<and>
      fmt img = ''png'' \<and> fmt img \<in> raster_formats \<and>
      map_of (options img) ''dpi'' = Some (Num 300) \<and>
      map_of (options img) ''facecolor'' = Some (Str ''white'') \<and>
      map_of (options img) ''bbox_inches'' = Some (Str ''tight'')"
    by blast
  with log show ?thesis by blast
qed

theorem C1_witness:
  "create_langgraph_diagram (fresh {target_dir}) = (None, finished (fresh {target_dir})) \<and>
   io_log (finished (fresh {target_dir})) =
     [FileWritten ''/Users/karwo09/code/voice-assistant/langgraph_architecture.png'',
      Printed message]"
proof -
  have run: "create_langgraph_diagram (fresh {target_dir}) = (None, finished (fresh {target_dir}))"
    by (simp add: create_ok fresh_def)
  from C1_one_png_at_the_fixed_path [OF run] show ?thesis
    using run by (simp add: fresh_def)
qed





text \<open>
  Claim C4. A run prints exactly one line, the confirmation message that starts
  with the check mark, when it returns normally, and nothing when it raises. The
  line is the last operation of the run: just before it (after 61 of the 62
  statements) the image is in place and standard output is untouched.
\<close>

theorem C4_one_confirmation_line_iff_success:
  "stdout (snd (create_langgraph_diagram w)) =
     stdout w @ (if fst (create_langgraph_diagram w) = None then [message] else []) \<and>
   prefix check_mark message \<and>
   io_log (snd (create_langgraph_diagram w)) =
     io_log w @ (if fst (create_langgraph_diagram w) = None
                 then [FileWritten out_path, Printed message] else [OpenFailed out_path]) \<and>
   (fst (create_langgraph_diagram w) = None \<longrightarrow>
      fst (state_after 61 w) = None \<and>
      stdout (snd (state_after 61 w)) = stdout w \<and>
      files (snd (state_after 61 w)) out_path = Some the_image \<and>
      files (snd (create_langgraph_diagram w)) out_path = Some the_image)"
  by (simp add: create_cases finished_def saved_def failed_def opened_def message_def
      state_after_61_ok)

theorem C4_witness:
  "fst (create_langgraph_diagram (fresh {target_dir})) = None \<and>
   stdout (snd (create_langgraph_diagram (fresh {target_dir}))) = [message] \<and>
   stdout (snd (state_after 61 (fresh {target_dir}))) = [] \<and>
   files (snd (state_after 61 (fresh {target_dir}))) out_path = Some the_image \<and>
   fst (create_langgraph_diagram (fresh {})) = Some (OSError out_path) \<and>
   stdout (snd (create_langgraph_diagram (fresh {}))) = []"
proof -
  have ok: "fst (create_langgraph_diagram (fresh {target_dir})) = None"
    by (simp add: create_cases fresh_def)
  have bad: "fst (create_langgraph_diagram (fresh {})) = Some (OSError out_path)"
    by (simp add: create_cases fresh_def)
  show ?thesis
    using C4_one_confirmation_line_iff_success [of "fresh {target_dir}"]
      C4_one_confirmation_line_iff_success [of "fresh {}"] ok bad
    by (simp add: fresh_def)
qed






text \<open>
  Claim C7. The figure is created 16 by 12. After the first three statements its
  bounds are 0..16 and 0..12 and its axes are hidden, with no element on it yet;
  the first element is added by the fourth statement, and bounds and hidden axes
  stay as they are to the end of the run (\<open>canvas_after k\<close> is the figure after \<open>k\<close>
  of the 62 statements).
\<close>

theorem C7_canvas_bounds_set_before_any_element:
  "create_langgraph_diagram w = state_after 62 w \<and>
   figsize (canvas_after k w) = (16, 12) \<and>
   length (children (canvas_after k w)) = min 55 (k - 3) \<and>
   (3 \<le> k \<longrightarrow>
      xlim (canvas_after k w) = (0, 16) \<and> ylim (canvas_after k w) = (0, 12) \<and>
      \<not> axison (canvas_after k w))"
  by (simp add: create_is_state_after figsize_canvas_after children_canvas_after
      limits_canvas_after length_diagram min.commute)

theorem C7_witness:
  "children (canvas_after 3 (fresh {target_dir})) = [] \<and>
   xlim (canvas_after 3 (fresh {target_dir})) = (0, 16) \<and>
   ylim (canvas_after 3 (fresh {target_dir})) = (0, 12) \<and>
   axison (canvas_after 3 (fresh {target_dir})) = False \<and>
   length (children (canvas_after 4 (fresh {target_dir}))) = 1 \<and>
   xlim (canvas_after 62 (fresh {target_dir})) = (0, 16) \<and>
   ylim (canvas_after 62 (fresh {target_dir})) = (0, 12) \<and>
   length (children (canvas_after 62 (fresh {target_dir}))) = 55"
  using C7_canvas_bounds_set_before_any_element [of "fresh {target_dir}" 3]
    C7_canvas_bounds_set_before_any_element [of "fresh {target_dir}" 4]
    C7_canvas_bounds_set_before_any_element [of "fresh {target_dir}" 62]
  by simp

text \<open>
  Claim C8. The finished canvas has exactly five connection patches, in this
  order and with these end points, all in data coordinates and drawn with the
  arrow style \<^verbatim>\<open>->\<close>. None is given a patch or an axes to attach to: an arrow and
  a box are related by position only. By position, the arrows run from the border
  of the Phase 1 box to that of Phase 2, from Phase 2 to Phase 3, from Phase 3 to
  Phase 4, from the tools section to Phase 3 and from the hashtag section to
  Phase 1 (the boxes numbered in the order of creation).
\<close>

theorem C8_five_arrows_between_literal_points:
  "filter is_connection (children (canvas_after 62 w)) =
     [ConnectionPatch (4, 10.1) (6, 10.1) ''data'' ''data''
        [(''arrowstyle'', Str ''->''), (''shrinkA'', Num 5), (''shrinkB'', Num 5),
         (''mutation_scale'', Num 20), (''fc'', Str ''#666666'')],
      ConnectionPatch (9, 10.1) (11, 10.1) ''data'' ''data''
        [(''arrowstyle'', Str ''->''), (''shrinkA'', Num 5), (''shrinkB'', Num 5),
         (''mutation_scale'', Num 20), (''fc'', Str ''#666666'')],
      ConnectionPatch (12.5, 9.5) (7.5, 8.7) ''data'' ''data''
        [(''arrowstyle'', Str ''->''), (''shrinkA'', Num 5), (''shrinkB'', Num 5),
         (''mutation_scale'', Num 20), (''fc'', Str ''#666666'')],
      ConnectionPatch (4, 5.5) (12.5, 9.5) ''data'' ''data''
        [(''arrowstyle'', Str ''->''), (''shrinkA'', Num 5), (''shrinkB'', Num 5),
         (''mutation_scale'', Num 15), (''fc'', Str ''green''), (''alpha'', Num 0.7)],
      ConnectionPatch (12, 5.5) (2.5, 9.5) ''data'' ''data''
        [(''arrowstyle'', Str ''->''), (''shrinkA'', Num 5), (''shrinkB'', Num 5),
         (''mutation_scale'', Num 15), (''fc'', Str ''orange''), (''alpha'', Num 0.7)]] \<and>
   list_all (\<lambda>a. map_of (artist_kwargs a) ''patchA'' = None \<and>
                 map_of (artist_kwargs a) ''patchB'' = None \<and>
                 map_of (artist_kwargs a) ''axesA'' = None \<and>
                 map_of (artist_kwargs a) ''axesB'' = None)
     (filter is_connection (children (canvas_after 62 w))) \<and>
   length (filter is_box (children (canvas_after 62 w))) = 8 \<and>
   on_border (4, 10.1) (filter is_box (children (canvas_after 62 w)) ! 0) \<and>
   on_border (6, 10.1) (filter is_box (children (canvas_after 62 w)) ! 1) \<and>
   on_border (9, 10.1) (filter is_box (children (canvas_after 62 w)) ! 1) \<and>
   on_border (11, 10.1) (filter is_box (children (canvas_after 62 w)) ! 2) \<and>
   on_border (12.5, 9.5) (filter is_box (children (canvas_after 62 w)) ! 2) \<and>
   on_border (7.5, 8.7) (filter is_box (children (canvas_after 62 w)) ! 3) \<and>
   on_border (4, 5.5) (filter is_box (children (canvas_after 62 w)) ! 4) \<and>
   on_border (12, 5.5) (filter is_box (children (canvas_after 62 w)) ! 5) \<and>
   on_border (2.5, 9.5) (filter is_box (children (canvas_after 62 w)) ! 0) \<and>
   create_langgraph_diagram w = state_after 62 w"
  by (simp add: children_finished_canvas diagram_arrows diagram_box_list
      create_is_state_after)

theorem C8_witness:
  "length (filter is_connection (children (canvas_after 62 (fresh {target_dir})))) = 5 \<and>
   length (filter is_box (children (canvas_after 62 (fresh {target_dir})))) = 8 \<and>
   on_border (4, 10.1) (filter is_box (children (canvas_after 62 (fresh {target_dir}))) ! 0)"
  using C8_five_arrows_between_literal_points [of "fresh {target_dir}"]
  by simp

text \<open>
  Claim C9. On a normal return the line printed is the message, which contains
  the base name \<^verbatim>\<open>langgraph_architecture.png\<close> but not the directory
  \<^verbatim>\<open>/Users/karwo09/code/voice-assistant/\<close> (it contains no slash at all), while the
  file is written at the directory followed by the base name.
\<close>

theorem C9_message_names_the_base_name_only:
  assumes "create_langgraph_diagram w = (None, w')"
  shows "stdout w' = stdout w @ [message] \<and>
         io_log w' = io_log w @
           [FileWritten (''/Users/karwo09/code/voice-assistant/'' @ ''langgraph_architecture.png''),
            Printed message] \<and>
         sublist ''langgraph_architecture.png'' message \<and>
         \<not> sublist ''/Users/karwo09/code/voice-assistant/'' message \<and>
         CHR ''/'' \<notin> set message"
proof -
  from assms have w': "w' = finished w" by (rule create_NoneD)
  have "message =
      (check_mark @ '' LangGraph architecture diagram saved as '' @ [CHR 0x27]) @
      ''langgraph_architecture.png'' @ [CHR 0x27]"
    by (simp add: message_def)
  moreover have "sublist ''langgraph_architecture.png''
      ((check_mark @ '' LangGraph architecture diagram saved as '' @ [CHR 0x27]) @
       ''langgraph_architecture.png'' @ [CHR 0x27])"
    by (rule sublist_appendI)
  ultimately have "sublist ''langgraph_architecture.png'' message"
    by (simp only:)
  moreover have no_slash: "CHR ''/'' \<notin> set message"
    by (simp add: message_def check_mark_def)
  moreover have "\<not> sublist ''/Users/karwo09/code/voice-assistant/'' message"
  proof
    assume "sublist ''/Users/karwo09/code/voice-assistant/'' message"
    then have "set ''/Users/karwo09/code/voice-assistant/'' \<subseteq> set message"
      by (rule set_mono_sublist)
    with no_slash show False by simp
  qed
  ultimately show ?thesis by (simp add: w' finished_def saved_def out_path_def)
qed

theorem C9_witness:
  "create_langgraph_diagram (fresh {target_dir}) = (None, finished (fresh {target_dir})) \<and>
   stdout (finished (fresh {target_dir})) = [message] \<and>
   sublist ''langgraph_architecture.png'' message \<and>
   CHR ''/'' \<notin> set message"
proof -
  have run: "create_langgraph_diagram (fresh {target_dir}) = (None, finished (fresh {target_dir}))"
    by (simp add: create_ok fresh_def)
  from C9_message_names_the_base_name_only [OF run] show ?thesis
    using run by (simp add: fresh_def)
qed

text \<open>
  Claim C10. In a run that returns normally the figure is registered with pyplot
  after the save (statement 60) and gone after \<^verbatim>\<open>plt.close()\<close> (statement 61): the
  registry of open figures ends as it started. The same holds after any number
  of runs in a row, each of which returns normally.
\<close>

theorem C10_figure_closed_after_normal_return:
  assumes "create_langgraph_diagram w = (None, w')"
  shows "open_figs (snd (state_after 60 w)) =
           open_figs w @ [(next_num (open_figs w), next_obj w)] \<and>
         open_figs (snd (state_after 61 w)) = open_figs w \<and>
         open_figs w' = open_figs w \<and>
         open_figs (runs n w) = open_figs w \<and>
         fst (create_langgraph_diagram (runs n w)) = None"
proof -
  from assms have d: "target_dir \<in> dirs w" and w': "w' = finished w"
    by (rule create_NoneD)+
  from runs_keep [OF d, of n] have "target_dir \<in> dirs (runs n w)" using d by simp
  then have "fst (create_langgraph_diagram (runs n w)) = None" by (simp add: create_ok)
  then show ?thesis
    using runs_keep [OF d, of n]
    by (simp add: w' state_after_60_ok [OF d] state_after_61_ok [OF d] finished_def saved_def
        opened_def)
qed

theorem C10_witness:
  "create_langgraph_diagram (fresh {target_dir}) = (None, finished (fresh {target_dir})) \<and>
   open_figs (snd (state_after 60 (fresh {target_dir}))) = [(1, 0)] \<and>
   open_figs (finished (fresh {target_dir})) = [] \<and>
   open_figs (runs 3 (fresh {target_dir})) = []"
proof -
  have run: "create_langgraph_diagram (fresh {target_dir}) = (None, finished (fresh {target_dir}))"
    by (simp add: create_ok fresh_def)
  from C10_figure_closed_after_normal_return [OF run, of 3] show ?thesis
    using run by (simp add: fresh_def next_num_def)
qed

end
